theory Spec2Isabelle
  imports Main "HOL-Library.Signed_Division"
begin

section \<open>The DAX sample driver: two variants of one command-line tool\<close>

text \<open>
  The repository holds two variants of the same driver: \<^verbatim>\<open>src/unnamed/part_000\<close>
  (definitions suffixed \<open>_part0\<close>) and \<^verbatim>\<open>src/try_dax.go\<close> (suffixed \<open>_trydax\<close>).
  Definitions without a suffix are textually the same in both files.

  A Go \<^verbatim>\<open>error\<close> is represented by the text its \<^verbatim>\<open>Error()\<close> method returns, which is
  what \<^verbatim>\<open>%v\<close> prints. The values \<^verbatim>\<open>flag.String\<close> and \<^verbatim>\<open>flag.Bool\<close> return are never nil
  pointers, so the flag variables are modelled by the values they point to and the
  \<^verbatim>\<open>== nil\<close> disjuncts of the source, constantly false, are not written.
\<close>

subsection \<open>Values of the SDK\<close>

datatype error = Errorf (Error: string)

type_synonym response = string
  \<comment> \<open>a response of the SDK, represented by its rendering under \<^verbatim>\<open>%v\<close>\<close>

datatype AttributeValue = S string | N string

datatype KeySchemaElement = KeySchemaElement string string
  \<comment> \<open>AttributeName, KeyType\<close>

datatype AttributeDefinition = AttributeDefinition string string
  \<comment> \<open>AttributeName, AttributeType\<close>

datatype ProvisionedThroughput = ProvisionedThroughput int int
  \<comment> \<open>ReadCapacityUnits, WriteCapacityUnits\<close>

datatype request =
    CreateTable string "KeySchemaElement list" "AttributeDefinition list" ProvisionedThroughput
      \<comment> \<open>TableName, KeySchema, AttributeDefinitions, ProvisionedThroughput\<close>
  | DeleteTable string
  | PutItem string "string \<rightharpoonup> AttributeValue"
      \<comment> \<open>TableName, Item\<close>
  | GetItem string "string \<rightharpoonup> AttributeValue"
      \<comment> \<open>TableName, Key\<close>
  | Query string string "string \<rightharpoonup> AttributeValue"
      \<comment> \<open>TableName, KeyConditionExpression, ExpressionAttributeValues\<close>
  | Scan string

definition KeyTypeHash :: string where "KeyTypeHash = ''HASH''"
definition KeyTypeRange :: string where "KeyTypeRange = ''RANGE''"
definition ScalarAttributeTypeS :: string where "ScalarAttributeTypeS = ''S''"
definition ScalarAttributeTypeN :: string where "ScalarAttributeTypeN = ''N''"

text \<open>
  A client handle is the behaviour of the backend behind it: the answer to a request may
  depend on the requests this process has issued before.
\<close>

type_synonym client = "request list \<Rightarrow> request \<Rightarrow> error + response"

subsection \<open>The process and its environment\<close>

record world =
  calls :: "request list"
  stdout :: "string list"
  stderr :: "string list"
  clock_reads :: nat

record flags =
  service :: string
  region :: string
  endpoint :: string
  command :: string
  verbose :: bool

record cmdline =
  arg_service :: "string option"
  arg_region :: "string option"
  arg_endpoint :: "string option"
  arg_command :: "string option"
  arg_verbose :: "bool option"

record env =
  session_NewSession :: "string option \<Rightarrow> error option"
  ec2_Region :: "error + string"
  dynamodb_New :: "string \<Rightarrow> client"
  dax_New :: "string \<Rightarrow> string \<Rightarrow> error + client"
  clock :: "nat \<Rightarrow> int"
  show_Duration :: "int \<Rightarrow> string"
  range_commandMap :: "string list"

datatype outcome = Exit int | Panic

definition world0 :: world where
  "world0 = \<lparr>calls = [], stdout = [], stderr = [], clock_reads = 0\<rparr>"

definition os_Stderr_WriteString :: "string \<Rightarrow> world \<Rightarrow> world" where
  "os_Stderr_WriteString s w = w\<lparr>stderr := stderr w @ [s]\<rparr>"

definition os_Stdout_WriteString :: "string \<Rightarrow> world \<Rightarrow> world" where
  "os_Stdout_WriteString s w = w\<lparr>stdout := stdout w @ [s]\<rparr>"

definition nl :: string where
  "nl = [CHR 0x0A]"

definition invoke :: "client \<Rightarrow> request \<Rightarrow> world \<Rightarrow> (error + response) \<times> world" where
  "invoke client r w = (client (calls w) r, w\<lparr>calls := calls w @ [r]\<rparr>)"

text \<open>
  \<^verbatim>\<open>time.Now()\<close> takes the next reading of the clock (nanoseconds);
  \<^verbatim>\<open>time.Since(st)\<close> is \<^verbatim>\<open>time.Now().Sub(st)\<close>, a \<^verbatim>\<open>Duration\<close> (a 64-bit count of
  nanoseconds) that saturates at the ends of its range.
\<close>

definition time_Now :: "env \<Rightarrow> world \<Rightarrow> int \<times> world" where
  "time_Now e w = (clock e (clock_reads w), w\<lparr>clock_reads := Suc (clock_reads w)\<rparr>)"

definition time_Sub :: "int \<Rightarrow> int \<Rightarrow> int" where
  "time_Sub t u = max (- (2 ^ 63)) (min (2 ^ 63 - 1) (t - u))"

definition time_Since :: "env \<Rightarrow> int \<Rightarrow> world \<Rightarrow> int \<times> world" where
  "time_Since e st w = (case time_Now e w of (t, w') \<Rightarrow> (time_Sub t st, w'))"

subsection \<open>Strings\<close>

fun join :: "string list \<Rightarrow> string \<Rightarrow> string" where
  "join [] sep = []"
| "join [x] sep = x"
| "join (x # y # ys) sep = x @ sep @ join (y # ys) sep"

fun fmt_d :: "nat \<Rightarrow> string" where
  "fmt_d n = (if n < 10 then [''0123456789'' ! n]
              else fmt_d (n div 10) @ [''0123456789'' ! (n mod 10)])"

declare fmt_d.simps [simp del]

fun contains :: "string \<Rightarrow> string list \<Rightarrow> bool" where
  "contains needle [] = False"
| "contains needle (v # haystack) = (if needle = v then True else contains needle haystack)"

subsection \<open>Constants\<close>

definition services :: "string list" where
  "services = [''dynamodb'', ''dax'']"

definition commands :: "string list" where
  "commands = [''create-table'', ''put-item'', ''get-item'', ''query'', ''scan'', ''delete-table'']"

definition table :: string where "table = ''TryDaxGoTable''"
definition keyPrefix :: string where "keyPrefix = ''key''"
definition valPrefix :: string where "valPrefix = ''val''"
definition pkMax :: nat where "pkMax = 10"
definition skMax :: nat where "skMax = 10"
definition iterations :: nat where "iterations = 25"

subsection \<open>Flags\<close>

definition flag_String :: "string option \<Rightarrow> string \<Rightarrow> string" where
  "flag_String a dflt = (case a of None \<Rightarrow> dflt | Some v \<Rightarrow> v)"

definition flag_Bool :: "bool option \<Rightarrow> bool \<Rightarrow> bool" where
  "flag_Bool a dflt = (case a of None \<Rightarrow> dflt | Some v \<Rightarrow> v)"

definition flag_Parse_part0 :: "cmdline \<Rightarrow> flags" where
  "flag_Parse_part0 cl =
     \<lparr>service = flag_String (arg_service cl) ''dynamodb'',
      region = flag_String (arg_region cl) ''us-west-2'',
      endpoint = flag_String (arg_endpoint cl) [],
      command = flag_String (arg_command cl) [],
      verbose = flag_Bool (arg_verbose cl) False\<rparr>"

definition flag_Parse_trydax :: "string \<Rightarrow> cmdline \<Rightarrow> flags" where
  "flag_Parse_trydax detectedRegion cl =
     \<lparr>service = flag_String (arg_service cl) ''dynamodb'',
      region = flag_String (arg_region cl) detectedRegion,
      endpoint = flag_String (arg_endpoint cl) [],
      command = flag_String (arg_command cl) [],
      verbose = flag_Bool (arg_verbose cl) False\<rparr>"

subsection \<open>Loops\<close>

text \<open>
  \<^verbatim>\<open>for i := lo; i < n; i++ { body }\<close>, where the body either falls through or leaves
  the enclosing function with \<^verbatim>\<open>return err\<close> (the result \<open>Some err\<close>).
\<close>

function for_loop ::
  "nat \<Rightarrow> nat \<Rightarrow> (nat \<Rightarrow> world \<Rightarrow> error option \<times> world) \<Rightarrow> world \<Rightarrow> error option \<times> world"
where
  "for_loop i n body w =
     (if i < n then
        (case body i w of
           (Some err, w') \<Rightarrow> (Some err, w')
         | (None, w') \<Rightarrow> for_loop (Suc i) n body w')
      else (None, w))"
  by pat_completeness auto
termination
  by (relation "measure (\<lambda>(i, n, body, w). n - i)") auto

declare for_loop.simps [simp del]

subsection \<open>Executors\<close>

definition writeVerbose :: "flags \<Rightarrow> response \<Rightarrow> world \<Rightarrow> world" where
  "writeVerbose fl out w = (if verbose fl then os_Stdout_WriteString (out @ nl) w else w)"

definition executeCreateTable_part0 :: "flags \<Rightarrow> client \<Rightarrow> world \<Rightarrow> error option \<times> world" where
  "executeCreateTable_part0 fl client w =
     (let inp = CreateTable table
                  [KeySchemaElement ''pk'' KeyTypeHash, KeySchemaElement ''sk'' KeyTypeRange]
                  [AttributeDefinition ''pk'' ScalarAttributeTypeS,
                   AttributeDefinition ''sk'' ScalarAttributeTypeN]
                  (ProvisionedThroughput 100 100)
      in case invoke client inp w of
           (Inl err, w') \<Rightarrow> (Some err, w')
         | (Inr out, w') \<Rightarrow> (None, writeVerbose fl out w'))"

definition executeDeleteTable_part0 :: "flags \<Rightarrow> client \<Rightarrow> world \<Rightarrow> error option \<times> world" where
  "executeDeleteTable_part0 fl client w =
     (let inp = DeleteTable table
      in case invoke client inp w of
           (Inl err, w') \<Rightarrow> (Some err, w')
         | (Inr out, w') \<Rightarrow> (None, writeVerbose fl out w'))"

definition executePutItem_part0 :: "flags \<Rightarrow> client \<Rightarrow> world \<Rightarrow> error option \<times> world" where
  "executePutItem_part0 fl client w =
     for_loop 0 pkMax (\<lambda>i. for_loop 0 skMax (\<lambda>j w.
       let item = [''pk'' \<mapsto> S (keyPrefix @ ''_'' @ fmt_d i),
                   ''sk'' \<mapsto> N (fmt_d j),
                   ''value'' \<mapsto> S (valPrefix @ ''_'' @ fmt_d i @ ''_'' @ fmt_d j)];
           inp = PutItem table item
       in case invoke client inp w of
            (Inl err, w') \<Rightarrow> (Some err, w')
          | (Inr out, w') \<Rightarrow> (None, writeVerbose fl out w'))) w"

definition timing_line :: "env \<Rightarrow> int \<Rightarrow> string" where
  "timing_line e d =
     ''Total Time: '' @ show_Duration e d @ '', Avg Time: ''
       @ show_Duration e (d sdiv int iterations) @ nl"

definition executeGetItem_part0 :: "flags \<Rightarrow> env \<Rightarrow> client \<Rightarrow> world \<Rightarrow> error option \<times> world" where
  "executeGetItem_part0 fl e client w =
     (case time_Now e w of (st, w1) \<Rightarrow>
      (case for_loop 0 iterations (\<lambda>c. for_loop 0 pkMax (\<lambda>i. for_loop 0 skMax (\<lambda>j w.
              let key = [''pk'' \<mapsto> S (keyPrefix @ ''_'' @ fmt_d i),
                         ''sk'' \<mapsto> N (fmt_d j)];
                  inp = GetItem table key
              in case invoke client inp w of
                   (Inl err, w') \<Rightarrow> (Some err, w')
                 | (Inr out, w') \<Rightarrow> (None, writeVerbose fl out w')))) w1 of
         (Some err, w2) \<Rightarrow> (Some err, w2)
       | (None, w2) \<Rightarrow>
           (case time_Since e st w2 of (d, w3) \<Rightarrow>
              (None, os_Stdout_WriteString (timing_line e d) w3))))"

definition executeQuery_part0 :: "flags \<Rightarrow> env \<Rightarrow> client \<Rightarrow> world \<Rightarrow> error option \<times> world" where
  "executeQuery_part0 fl e client w =
     (case time_Now e w of (st, w1) \<Rightarrow>
      (case for_loop 0 iterations (\<lambda>c w.
              let inp = Query table ''pk = :pkval and sk between :skval1 and :skval2''
                          ['':pkval'' \<mapsto> S (keyPrefix @ ''_'' @ fmt_d 5),
                           '':skval1'' \<mapsto> N (fmt_d 2),
                           '':skval2'' \<mapsto> N (fmt_d 9)]
              in case invoke client inp w of
                   (Inl err, w') \<Rightarrow> (Some err, w')
                 | (Inr out, w') \<Rightarrow> (None, writeVerbose fl out w')) w1 of
         (Some err, w2) \<Rightarrow> (Some err, w2)
       | (None, w2) \<Rightarrow>
           (case time_Since e st w2 of (d, w3) \<Rightarrow>
              (None, os_Stdout_WriteString (timing_line e d) w3))))"

definition executeScan_part0 :: "flags \<Rightarrow> env \<Rightarrow> client \<Rightarrow> world \<Rightarrow> error option \<times> world" where
  "executeScan_part0 fl e client w =
     (case time_Now e w of (st, w1) \<Rightarrow>
      (case for_loop 0 iterations (\<lambda>c w.
              let inp = Scan table
              in case invoke client inp w of
                   (Inl err, w') \<Rightarrow> (Some err, w')
                 | (Inr out, w') \<Rightarrow> (None, writeVerbose fl out w')) w1 of
         (Some err, w2) \<Rightarrow> (Some err, w2)
       | (None, w2) \<Rightarrow>
           (case time_Since e st w2 of (d, w3) \<Rightarrow>
              (None, os_Stdout_WriteString (timing_line e d) w3))))"

subsection \<open>Client factory\<close>

definition ddbClient :: "env \<Rightarrow> string \<Rightarrow> error + client" where
  "ddbClient e region' =
     (case session_NewSession e (Some region') of
        Some err \<Rightarrow> Inl err
      | None \<Rightarrow> Inr (dynamodb_New e region'))"

definition daxClient :: "env \<Rightarrow> string \<Rightarrow> string \<Rightarrow> error + client" where
  "daxClient e endpoint' region' = dax_New e endpoint' region'"

definition initClient_part0 :: "flags \<Rightarrow> env \<Rightarrow> error + client" where
  "initClient_part0 fl e =
     (if service fl = ''dax'' then daxClient e (endpoint fl) (region fl)
      else ddbClient e (region fl))"

definition initTableClient_trydax :: "flags \<Rightarrow> env \<Rightarrow> error + client" where
  "initTableClient_trydax fl e =
     (if service fl = ''dax''
      then Inl (Errorf (''for table operations use service 'dynamodb'' @ [CHR 0x27]))
      else ddbClient e (region fl))"

definition initItemClient_trydax :: "flags \<Rightarrow> env \<Rightarrow> error + client" where
  "initItemClient_trydax fl e =
     (if service fl = ''dax'' then daxClient e (endpoint fl) (region fl)
      else ddbClient e (region fl))"

subsection \<open>The variant of \<^verbatim>\<open>src/unnamed/part_000\<close>\<close>

definition executeCommand_part0 :: "flags \<Rightarrow> env \<Rightarrow> client \<Rightarrow> world \<Rightarrow> error option \<times> world" where
  "executeCommand_part0 fl e client w =
     (if command fl = ''create-table'' then executeCreateTable_part0 fl client w
      else if command fl = ''put-item'' then executePutItem_part0 fl client w
      else if command fl = ''get-item'' then executeGetItem_part0 fl e client w
      else if command fl = ''query'' then executeQuery_part0 fl e client w
      else if command fl = ''scan'' then executeScan_part0 fl e client w
      else if command fl = ''delete-table'' then executeDeleteTable_part0 fl client w
      else (Some (Errorf (''unknown command '' @ command fl)), w))"

definition validate_part0 :: "flags \<Rightarrow> error option" where
  "validate_part0 fl =
     (if \<not> contains (service fl) services
      then Some (Errorf (''service should be one of ['' @ join services '' | '' @ '']''))
      else if \<not> contains (command fl) commands
      then Some (Errorf (''command should be one of ['' @ join commands '' | '' @ '']''))
      else if service fl = ''dax'' then
        (if length (endpoint fl) = 0
         then Some (Errorf ''endpoint should be set for 'dax' service'')
         else if command fl = ''create-table'' \<or> command fl = ''delete-table''
         then Some (Errorf (''service 'dax' does not support table operations, use service 'dynamodb''
                              @ [CHR 0x27]))
         else None)
      else None)"

text \<open>
  \<^verbatim>\<open>main\<close> of this variant leaves by \<^verbatim>\<open>return\<close> on every path and never calls
  \<^verbatim>\<open>os.Exit\<close>: a Go process whose \<^verbatim>\<open>main\<close> returns ends with exit status 0.
\<close>

definition main_part0 :: "cmdline \<Rightarrow> env \<Rightarrow> world \<Rightarrow> outcome \<times> world" where
  "main_part0 cl e w =
     (let fl = flag_Parse_part0 cl in
      case validate_part0 fl of
        Some err \<Rightarrow> (Exit 0, os_Stderr_WriteString (''invalid input: '' @ Error err @ nl) w)
      | None \<Rightarrow>
          (case initClient_part0 fl e of
             Inl err \<Rightarrow>
               (Exit 0, os_Stderr_WriteString (''failed to init client: '' @ Error err @ nl) w)
           | Inr client \<Rightarrow>
               (case executeCommand_part0 fl e client w of
                  (Some err, w') \<Rightarrow>
                    (Exit 0,
                     os_Stderr_WriteString (''failed to execute command: '' @ Error err @ nl) w')
                | (None, w') \<Rightarrow> (Exit 0, w'))))"

subsection \<open>The variant of \<^verbatim>\<open>src/try_dax.go\<close>\<close>

text \<open>
  Each executor of this variant builds its own client and then runs the statements the
  executor of the same name runs in \<^verbatim>\<open>part_000\<close>: the two bodies are the same text from
  the first statement after the client is there.
\<close>

definition failed_to_initialize :: "error \<Rightarrow> world \<Rightarrow> world" where
  "failed_to_initialize err w =
     os_Stderr_WriteString (''failed to initialize client: '' @ Error err @ nl) w"

definition executeCreateTable_trydax :: "flags \<Rightarrow> env \<Rightarrow> world \<Rightarrow> error option \<times> world" where
  "executeCreateTable_trydax fl e w =
     (case initTableClient_trydax fl e of
        Inl err \<Rightarrow> (Some err, w)
      | Inr client \<Rightarrow> executeCreateTable_part0 fl client w)"

definition executeDeleteTable_trydax :: "flags \<Rightarrow> env \<Rightarrow> world \<Rightarrow> error option \<times> world" where
  "executeDeleteTable_trydax fl e w =
     (case initTableClient_trydax fl e of
        Inl err \<Rightarrow> (Some err, w)
      | Inr client \<Rightarrow> executeDeleteTable_part0 fl client w)"

definition executePutItem_trydax :: "flags \<Rightarrow> env \<Rightarrow> world \<Rightarrow> error option \<times> world" where
  "executePutItem_trydax fl e w =
     (case initItemClient_trydax fl e of
        Inl err \<Rightarrow> (Some err, failed_to_initialize err w)
      | Inr client \<Rightarrow> executePutItem_part0 fl client w)"

definition executeGetItem_trydax :: "flags \<Rightarrow> env \<Rightarrow> world \<Rightarrow> error option \<times> world" where
  "executeGetItem_trydax fl e w =
     (case initItemClient_trydax fl e of
        Inl err \<Rightarrow> (Some err, failed_to_initialize err w)
      | Inr client \<Rightarrow> executeGetItem_part0 fl e client w)"

definition executeQuery_trydax :: "flags \<Rightarrow> env \<Rightarrow> world \<Rightarrow> error option \<times> world" where
  "executeQuery_trydax fl e w =
     (case initItemClient_trydax fl e of
        Inl err \<Rightarrow> (Some err, failed_to_initialize err w)
      | Inr client \<Rightarrow> executeQuery_part0 fl e client w)"

definition executeScan_trydax :: "flags \<Rightarrow> env \<Rightarrow> world \<Rightarrow> error option \<times> world" where
  "executeScan_trydax fl e w =
     (case initItemClient_trydax fl e of
        Inl err \<Rightarrow> (Some err, failed_to_initialize err w)
      | Inr client \<Rightarrow> executeScan_part0 fl e client w)"

definition commandMap :: "(string \<times> (flags \<Rightarrow> env \<Rightarrow> world \<Rightarrow> error option \<times> world)) list" where
  "commandMap =
     [(''create-table'', executeCreateTable_trydax),
      (''delete-table'', executeDeleteTable_trydax),
      (''put-item'', executePutItem_trydax),
      (''get-item'', executeGetItem_trydax),
      (''query'', executeQuery_trydax),
      (''scan'', executeScan_trydax)]"

text \<open>
  \<^verbatim>\<open>for key := range m\<close> visits the keys of a Go map in an order the runtime chooses;
  the environment gives that order (\<open>range_commandMap\<close>, a permutation of the keys).
  A write \<^verbatim>\<open>keys[i] = key\<close> past the end of the slice would panic; it cannot happen
  when the order is a permutation of the keys, and is left out of \<open>listOfKeys\<close>.
\<close>

definition listOfKeys :: "string list \<Rightarrow> (string \<times> 'a) list \<Rightarrow> string list" where
  "listOfKeys order m =
     fst (fold (\<lambda>key (keys, i). (keys[i := key], Suc i)) order (replicate (length m) [], 0))"

definition commandsMsg :: "env \<Rightarrow> string" where
  "commandsMsg e = join (listOfKeys (range_commandMap e) commandMap) '' | ''"

definition validate_trydax :: "env \<Rightarrow> flags \<Rightarrow> error option" where
  "validate_trydax e fl =
     (if \<not> contains (service fl) services
      then Some (Errorf (''service should be one of ['' @ join services '' | '' @ '']''))
      else if map_of commandMap (command fl) = None
      then Some (Errorf (''command should be one of ['' @ commandsMsg e @ '']''))
      else if service fl = ''dax'' then
        (if length (endpoint fl) = 0
         then Some (Errorf ''endpoint should be set for 'dax' service'')
         else None)
      else None)"

definition initializeOptions :: "cmdline \<Rightarrow> env \<Rightarrow> world \<Rightarrow> (error + flags) \<times> world" where
  "initializeOptions cl e w =
     (case session_NewSession e None of
        Some err \<Rightarrow> (Inl err, os_Stderr_WriteString (Error err @ nl) w)
      | None \<Rightarrow>
          (case ec2_Region e of
             Inl err \<Rightarrow>
               (Inl err, os_Stderr_WriteString (''Unable to detect region: '' @ Error err @ nl) w)
           | Inr detectedRegion \<Rightarrow>
               (let fl = flag_Parse_trydax detectedRegion cl in
                case validate_trydax e fl of
                  Some err \<Rightarrow>
                    (Inl err, os_Stderr_WriteString (''invalid input: '' @ Error err @ nl) w)
                | None \<Rightarrow> (Inr fl, w))))"

text \<open>
  Calling the function value \<^verbatim>\<open>commandMap[*command]\<close> panics when the key is missing
  (the lookup yields the nil function).
\<close>

definition main_trydax :: "cmdline \<Rightarrow> env \<Rightarrow> world \<Rightarrow> outcome \<times> world" where
  "main_trydax cl e w =
     (case initializeOptions cl e w of
        (Inl err, w') \<Rightarrow> (Exit 1, w')
      | (Inr fl, w') \<Rightarrow>
          (case map_of commandMap (command fl) of
             None \<Rightarrow> (Panic, w')
           | Some execute \<Rightarrow>
               (case execute fl e w' of
                  (Some err, w'') \<Rightarrow>
                    (Exit 1,
                     os_Stderr_WriteString (''failed to execute command: '' @ Error err @ nl) w'')
                | (None, w'') \<Rightarrow> (Exit 0, w''))))"

subsection \<open>The request sequences of the specification\<close>

text \<open>
  The specification describes each repeating command by the requests it sends: the
  10 by 10 grid of writes, the same grid of reads 25 times over, 25 copies of one range
  query, 25 scans. These definitions follow the specification; the theorems below
  compare them with the executors.
\<close>

definition put_request :: "nat \<Rightarrow> nat \<Rightarrow> request" where
  "put_request i j =
     PutItem ''TryDaxGoTable''
       [''pk'' \<mapsto> S (''key_'' @ fmt_d i),
        ''sk'' \<mapsto> N (fmt_d j),
        ''value'' \<mapsto> S (''val_'' @ fmt_d i @ ''_'' @ fmt_d j)]"

definition get_request :: "nat \<Rightarrow> nat \<Rightarrow> request" where
  "get_request i j =
     GetItem ''TryDaxGoTable'' [''pk'' \<mapsto> S (''key_'' @ fmt_d i), ''sk'' \<mapsto> N (fmt_d j)]"

definition query_request :: request where
  "query_request =
     Query ''TryDaxGoTable'' ''pk = :pkval and sk between :skval1 and :skval2''
       ['':pkval'' \<mapsto> S ''key_5'', '':skval1'' \<mapsto> N ''2'', '':skval2'' \<mapsto> N ''9'']"

definition loop_requests :: "string \<Rightarrow> request list" where
  "loop_requests c =
     (if c = ''put-item'' then [put_request i j. i \<leftarrow> [0..<10], j \<leftarrow> [0..<10]]
      else if c = ''get-item''
        then concat (replicate 25 [get_request i j. i \<leftarrow> [0..<10], j \<leftarrow> [0..<10]])
      else if c = ''query'' then replicate 25 query_request
      else if c = ''scan'' then replicate 25 (Scan ''TryDaxGoTable'')
      else [])"

text \<open>
  Sending a list of requests in order, printing each response when \<open>verbose\<close> is set and
  stopping at the first error; \<open>timed\<close> puts the two clock readings and the summary line
  around it.
\<close>

fun run_seq :: "flags \<Rightarrow> client \<Rightarrow> request list \<Rightarrow> world \<Rightarrow> error option \<times> world" where
  "run_seq fl client [] w = (None, w)"
| "run_seq fl client (r # rs) w =
     (case invoke client r w of
        (Inl err, w') \<Rightarrow> (Some err, w')
      | (Inr out, w') \<Rightarrow> run_seq fl client rs (writeVerbose fl out w'))"

definition timed :: "flags \<Rightarrow> env \<Rightarrow> client \<Rightarrow> request list \<Rightarrow> world \<Rightarrow> error option \<times> world" where
  "timed fl e c rs w =
     (case time_Now e w of (st, w1) \<Rightarrow>
      (case run_seq fl c rs w1 of
         (Some err, w2) \<Rightarrow> (Some err, w2)
       | (None, w2) \<Rightarrow>
           (case time_Since e st w2 of (d, w3) \<Rightarrow>
              (None, os_Stdout_WriteString (timing_line e d) w3))))"

subsection \<open>Sample environment and flags\<close>

definition sample_client :: client where
  "sample_client h r = Inr ''ok''"

definition sample_env :: env where
  "sample_env =
     \<lparr>session_NewSession = (\<lambda>r. None),
      ec2_Region = Inr ''us-east-1'',
      dynamodb_New = (\<lambda>r. sample_client),
      dax_New = (\<lambda>ep r. Inr sample_client),
      clock = (\<lambda>k. 1000 * int k),
      show_Duration = (\<lambda>d. fmt_d (nat d) @ ''ns''),
      range_commandMap =
        [''scan'', ''query'', ''put-item'', ''get-item'', ''delete-table'', ''create-table'']\<rparr>"

definition sample_flags :: "string \<Rightarrow> string \<Rightarrow> string \<Rightarrow> flags" where
  "sample_flags s c ep =
     \<lparr>service = s, region = ''us-west-2'', endpoint = ep, command = c, verbose = False\<rparr>"

definition sample_cmdline :: "string \<Rightarrow> string \<Rightarrow> string \<Rightarrow> cmdline" where
  "sample_cmdline s c ep =
     \<lparr>arg_service = Some s, arg_region = None, arg_endpoint = Some ep, arg_command = Some c,
      arg_verbose = None\<rparr>"

definition failing_client :: "nat \<Rightarrow> client" where
  "failing_client n h r = (if length h = n - 1 then Inl (Errorf ''throttled'') else Inr ''ok'')"


section \<open>Auxiliary facts\<close>

lemma contains_set: "contains x xs = (x \<in> set xs)"
  by (induction xs) auto

lemma map_of_commandMap_None:
  "(map_of commandMap c = None) = (c \<notin> set commands)"
  by (simp add: commandMap_def commands_def)

lemma join_services: "join services '' | '' = ''dynamodb | dax''"
  by (simp add: services_def)

lemma join_commands:
  "join commands '' | '' = ''create-table | put-item | get-item | query | scan | delete-table''"
  by (simp add: commands_def)

lemma fold_keys:
  "i + length order \<le> length ks \<Longrightarrow>
   fold (\<lambda>key (keys, i). (keys[i := key], Suc i)) order (ks, i)
     = (take i ks @ order @ drop (i + length order) ks, i + length order)"
proof (induction order arbitrary: ks i)
  case Nil
  then show ?case by simp
next
  case (Cons k order)
  have "take (Suc i) (ks[i := k]) = take i ks @ [k]"
    using Cons.prems by (simp add: take_Suc_conv_app_nth)
  moreover have "drop (Suc i + length order) (ks[i := k]) = drop (Suc i + length order) ks"
    by simp
  ultimately show ?case using Cons.prems Cons.IH [of "Suc i" "ks[i := k]"] by simp
qed

lemma listOfKeys_perm:
  "length order = length m \<Longrightarrow> listOfKeys order m = order"
  using fold_keys [of 0 order "replicate (length m) []"] by (simp add: listOfKeys_def)

lemma run_seq_append:
  "run_seq fl c (xs @ ys) w =
     (case run_seq fl c xs w of (Some err, w') \<Rightarrow> (Some err, w') | (None, w') \<Rightarrow> run_seq fl c ys w')"
  by (induction xs arbitrary: w) (auto split: prod.splits sum.splits option.splits)

lemma for_loop_run_seq:
  "for_loop i n (\<lambda>k. run_seq fl c (f k)) w = run_seq fl c (concat (map f [i..<n])) w"
proof (induction i n "\<lambda>k. run_seq fl c (f k)" w rule: for_loop.induct)
  case (1 i n w)
  show ?case
  proof (cases "i < n")
    case True
    then have u: "[i..<n] = i # [Suc i..<n]" by (simp add: upt_conv_Cons)
    show ?thesis
      using True 1
      by (subst for_loop.simps) (auto simp add: u run_seq_append split: prod.splits option.splits)
  next
    case False
    then show ?thesis by (subst for_loop.simps) simp
  qed
qed

lemma for_loop_run_seq_fun:
  "for_loop i n (\<lambda>k. run_seq fl c (f k)) = run_seq fl c (concat (map f [i..<n]))"
  by (intro ext) (rule for_loop_run_seq)

lemma fmt_d_digit: "fmt_d 2 = ''2''" "fmt_d 5 = ''5''" "fmt_d 9 = ''9''"
  by (simp_all add: fmt_d.simps)

lemma executePutItem_run_seq:
  "executePutItem_part0 fl c w = run_seq fl c (loop_requests ''put-item'') w"
proof -
  have body: "(\<lambda>j w.
       let item = [''pk'' \<mapsto> S (keyPrefix @ ''_'' @ fmt_d i),
                   ''sk'' \<mapsto> N (fmt_d j),
                   ''value'' \<mapsto> S (valPrefix @ ''_'' @ fmt_d i @ ''_'' @ fmt_d j)];
           inp = PutItem table item
       in case invoke c inp w of
            (Inl err, w') \<Rightarrow> (Some err, w')
          | (Inr out, w') \<Rightarrow> (None, writeVerbose fl out w'))
     = (\<lambda>j. run_seq fl c [put_request i j])" for i
    by (intro ext) (simp add: put_request_def table_def keyPrefix_def valPrefix_def
        split: prod.splits sum.splits)
  show ?thesis
    unfolding executePutItem_part0_def body
    by (simp add: for_loop_run_seq_fun loop_requests_def pkMax_def skMax_def)
qed

lemma executeGetItem_timed:
  "executeGetItem_part0 fl e c w = timed fl e c (loop_requests ''get-item'') w"
proof -
  have body: "(\<lambda>j w.
              let key = [''pk'' \<mapsto> S (keyPrefix @ ''_'' @ fmt_d i),
                         ''sk'' \<mapsto> N (fmt_d j)];
                  inp = GetItem table key
              in case invoke c inp w of
                   (Inl err, w') \<Rightarrow> (Some err, w')
                 | (Inr out, w') \<Rightarrow> (None, writeVerbose fl out w'))
     = (\<lambda>j. run_seq fl c [get_request i j])" for i
    by (intro ext) (simp add: get_request_def table_def keyPrefix_def
        split: prod.splits sum.splits)
  have seq: "concat (map (\<lambda>c. concat (map (\<lambda>i. map (get_request i) [0..<10]) [0..<10])) [0..<25])
      = concat (replicate 25 (concat (map (\<lambda>i. map (get_request i) [0..<10]) [0..<10])))"
    by (simp add: map_replicate_const)
  show ?thesis
    unfolding executeGetItem_part0_def body timed_def
    by (simp add: for_loop_run_seq_fun for_loop_run_seq loop_requests_def pkMax_def skMax_def
        iterations_def seq)
qed

lemma executeQuery_timed:
  "executeQuery_part0 fl e c w = timed fl e c (loop_requests ''query'') w"
proof -
  have body: "(\<lambda>c' w.
              let inp = Query table ''pk = :pkval and sk between :skval1 and :skval2''
                          ['':pkval'' \<mapsto> S (keyPrefix @ ''_'' @ fmt_d 5),
                           '':skval1'' \<mapsto> N (fmt_d 2),
                           '':skval2'' \<mapsto> N (fmt_d 9)]
              in case invoke c inp w of
                   (Inl err, w') \<Rightarrow> (Some err, w')
                 | (Inr out, w') \<Rightarrow> (None, writeVerbose fl out w'))
     = (\<lambda>c'. run_seq fl c [query_request])"
    by (intro ext) (simp add: query_request_def table_def keyPrefix_def fmt_d_digit
        split: prod.splits sum.splits)
  show ?thesis
    unfolding executeQuery_part0_def body timed_def
    by (simp add: for_loop_run_seq loop_requests_def iterations_def map_replicate_const)
qed

lemma executeScan_timed:
  "executeScan_part0 fl e c w = timed fl e c (loop_requests ''scan'') w"
proof -
  have body: "(\<lambda>c' w.
              let inp = Scan table
              in case invoke c inp w of
                   (Inl err, w') \<Rightarrow> (Some err, w')
                 | (Inr out, w') \<Rightarrow> (None, writeVerbose fl out w'))
     = (\<lambda>c'. run_seq fl c [Scan ''TryDaxGoTable''])"
    by (intro ext) (simp add: table_def split: prod.splits sum.splits)
  show ?thesis
    unfolding executeScan_part0_def body timed_def
    by (simp add: for_loop_run_seq loop_requests_def iterations_def map_replicate_const)
qed

lemma writeVerbose_fields [simp]:
  "calls (writeVerbose fl out w) = calls w"
  "stderr (writeVerbose fl out w) = stderr w"
  "clock_reads (writeVerbose fl out w) = clock_reads w"
  "\<not> verbose fl \<Longrightarrow> writeVerbose fl out w = w"
  by (simp_all add: writeVerbose_def os_Stdout_WriteString_def)

lemma run_seq_fail:
  "n < length rs \<Longrightarrow>
   \<forall>k<n. \<exists>out. c (calls w @ take k rs) (rs ! k) = Inr out \<Longrightarrow>
   c (calls w @ take n rs) (rs ! n) = Inl err \<Longrightarrow>
   \<exists>w'. run_seq fl c rs w = (Some err, w') \<and> calls w' = calls w @ take (Suc n) rs
        \<and> stderr w' = stderr w"
proof (induction rs arbitrary: n w)
  case Nil
  then show ?case by simp
next
  case (Cons r rs)
  show ?case
  proof (cases n)
    case 0
    with Cons.prems show ?thesis by (simp add: invoke_def)
  next
    case (Suc m)
    with Cons.prems(2) obtain out where out: "c (calls w) r = Inr out" by fastforce
    define w1 where "w1 = writeVerbose fl out (w\<lparr>calls := calls w @ [r]\<rparr>)"
    have c1: "calls w1 = calls w @ [r]" and e1: "stderr w1 = stderr w"
      by (simp_all add: w1_def)
    have a: "m < length rs" using Cons.prems(1) Suc by simp
    have b: "\<forall>k<m. \<exists>out. c (calls w1 @ take k rs) (rs ! k) = Inr out"
    proof (intro allI impI)
      fix k assume "k < m"
      then have "Suc k < n" using Suc by simp
      with Cons.prems(2) show "\<exists>out. c (calls w1 @ take k rs) (rs ! k) = Inr out"
        using c1 by fastforce
    qed
    have d: "c (calls w1 @ take m rs) (rs ! m) = Inl err"
      using Cons.prems(3) Suc c1 by simp
    from Cons.IH [OF a b d] obtain w' where
      "run_seq fl c rs w1 = (Some err, w')" "calls w' = calls w1 @ take (Suc m) rs"
      "stderr w' = stderr w1" by blast
    then show ?thesis using out Suc c1 e1 by (simp add: invoke_def w1_def)
  qed
qed

lemma run_seq_ok:
  "\<forall>k<length rs. \<exists>out. c (calls w @ take k rs) (rs ! k) = Inr out \<Longrightarrow>
   \<exists>w'. run_seq fl c rs w = (None, w') \<and> calls w' = calls w @ rs
        \<and> stderr w' = stderr w \<and> clock_reads w' = clock_reads w
        \<and> (\<exists>ls. stdout w' = stdout w @ ls \<and> (\<not> verbose fl \<longrightarrow> ls = []))"
proof (induction rs arbitrary: w)
  case Nil
  then show ?case by simp
next
  case (Cons r rs)
  from Cons.prems obtain out where out: "c (calls w) r = Inr out" by fastforce
  define w1 where "w1 = writeVerbose fl out (w\<lparr>calls := calls w @ [r]\<rparr>)"
  have c1: "calls w1 = calls w @ [r]" and e1: "stderr w1 = stderr w"
    and k1: "clock_reads w1 = clock_reads w"
    by (simp_all add: w1_def)
  have s1: "\<exists>ls. stdout w1 = stdout w @ ls \<and> (\<not> verbose fl \<longrightarrow> ls = [])"
    by (simp add: w1_def writeVerbose_def os_Stdout_WriteString_def)
  have b: "\<forall>k<length rs. \<exists>out. c (calls w1 @ take k rs) (rs ! k) = Inr out"
  proof (intro allI impI)
    fix k assume "k < length rs"
    then have "Suc k < length (r # rs)" by simp
    with Cons.prems show "\<exists>out. c (calls w1 @ take k rs) (rs ! k) = Inr out"
      using c1 by fastforce
  qed
  from Cons.IH [OF b] obtain w' where w':
    "run_seq fl c rs w1 = (None, w')" "calls w' = calls w1 @ rs"
    "stderr w' = stderr w1" "clock_reads w' = clock_reads w1"
    "\<exists>ls. stdout w' = stdout w1 @ ls \<and> (\<not> verbose fl \<longrightarrow> ls = [])" by blast
  from s1 w'(5) have "\<exists>ls. stdout w' = stdout w @ ls \<and> (\<not> verbose fl \<longrightarrow> ls = [])"
    by auto
  then show ?case using out w' c1 e1 k1 by (simp add: invoke_def w1_def)
qed

lemma timed_fail:
  assumes "n < length rs"
    and "\<forall>k<n. \<exists>out. c (calls w @ take k rs) (rs ! k) = Inr out"
    and "c (calls w @ take n rs) (rs ! n) = Inl err"
  shows "\<exists>w'. timed fl e c rs w = (Some err, w') \<and> calls w' = calls w @ take (Suc n) rs
        \<and> stderr w' = stderr w"
proof -
  define w1 where "w1 = w\<lparr>clock_reads := Suc (clock_reads w)\<rparr>"
  have c1: "calls w1 = calls w" "stderr w1 = stderr w" by (simp_all add: w1_def)
  from run_seq_fail [of n rs c w1 err fl] assms c1
  obtain w' where "run_seq fl c rs w1 = (Some err, w')"
    "calls w' = calls w @ take (Suc n) rs" "stderr w' = stderr w" by auto
  then show ?thesis by (simp add: timed_def time_Now_def w1_def)
qed

lemma timed_ok:
  assumes "\<forall>k<length rs. \<exists>out. c (calls w @ take k rs) (rs ! k) = Inr out"
  shows "\<exists>w' ls. timed fl e c rs w = (None, w') \<and> calls w' = calls w @ rs
        \<and> stderr w' = stderr w
        \<and> stdout w' = stdout w @ ls @
             [timing_line e (time_Sub (clock e (Suc (clock_reads w))) (clock e (clock_reads w)))]
        \<and> (\<not> verbose fl \<longrightarrow> ls = [])"
proof -
  define w1 where "w1 = w\<lparr>clock_reads := Suc (clock_reads w)\<rparr>"
  have c1: "calls w1 = calls w" "stderr w1 = stderr w" "stdout w1 = stdout w"
    "clock_reads w1 = Suc (clock_reads w)" by (simp_all add: w1_def)
  from run_seq_ok [of rs c w1 fl] assms c1
  obtain w2 ls where w2: "run_seq fl c rs w1 = (None, w2)"
    "calls w2 = calls w @ rs" "stderr w2 = stderr w" "clock_reads w2 = Suc (clock_reads w)"
    "stdout w2 = stdout w @ ls" "\<not> verbose fl \<longrightarrow> ls = []" by auto
  then show ?thesis
    by (simp add: timed_def time_Now_def time_Since_def w1_def os_Stdout_WriteString_def)
qed

lemma length_loop_requests:
  "length (loop_requests ''put-item'') = 100"
  "length (loop_requests ''get-item'') = 2500"
  "length (loop_requests ''query'') = 25"
  "length (loop_requests ''scan'') = 25"
  by (simp_all add: loop_requests_def length_concat sum_list_replicate
      comp_def sum_list_triv)

lemma trydax_item_executors:
  assumes "initItemClient_trydax fl e = Inr client"
  shows "executePutItem_trydax fl e w = executePutItem_part0 fl client w"
    and "executeGetItem_trydax fl e w = executeGetItem_part0 fl e client w"
    and "executeQuery_trydax fl e w = executeQuery_part0 fl e client w"
    and "executeScan_trydax fl e w = executeScan_part0 fl e client w"
  using assms
  by (simp_all add: executePutItem_trydax_def executeGetItem_trydax_def
      executeQuery_trydax_def executeScan_trydax_def)

lemma loop_command_part0:
  assumes "cmd \<in> {''put-item'', ''get-item'', ''query'', ''scan''}" "command fl = cmd"
  shows "executeCommand_part0 fl e client w =
          (if cmd = ''put-item'' then run_seq fl client (loop_requests cmd) w
           else timed fl e client (loop_requests cmd) w)"
  using assms
  by (auto simp add: executeCommand_part0_def executePutItem_run_seq executeGetItem_timed
      executeQuery_timed executeScan_timed)

lemma loop_command_trydax:
  assumes "cmd \<in> {''put-item'', ''get-item'', ''query'', ''scan''}"
    and "initItemClient_trydax fl e = Inr client"
  shows "\<exists>execute. map_of commandMap cmd = Some execute \<and>
          execute fl e w =
          (if cmd = ''put-item'' then run_seq fl client (loop_requests cmd) w
           else timed fl e client (loop_requests cmd) w)"
  using assms(1) trydax_item_executors [OF assms(2)]
  by (auto simp add: commandMap_def executePutItem_run_seq executeGetItem_timed
      executeQuery_timed executeScan_timed)




section \<open>Validation\<close>

text \<open>
  Claim C2, as stated, fails on \<^verbatim>\<open>try_dax.go\<close>: its \<open>validate\<close> accepts service
  \<open>dax\<close> with the command \<open>create-table\<close> once an endpoint is given.
\<close>

theorem validate_trydax_accepts_dax_table_command:
  "validate_trydax sample_env (sample_flags ''dax'' ''create-table'' ''cluster:8111'') = None"
  by (simp add: validate_trydax_def sample_flags_def services_def commandMap_def)

text \<open>
  Claim C2, amended. In \<^verbatim>\<open>part_000\<close>, \<open>validate\<close> rejects an unknown service, an unknown
  command (the service being known), service \<open>dax\<close> with an empty endpoint, and service
  \<open>dax\<close> with \<open>create-table\<close> or \<open>delete-table\<close>, with four fixed, pairwise distinct
  messages. In \<^verbatim>\<open>try_dax.go\<close>, \<open>validate\<close> rejects the first three, with three pairwise
  distinct messages, and accepts service \<open>dax\<close> with a table command and a non-empty
  endpoint; its unknown-command message lists the commands in the iteration order of
  \<open>commandMap\<close>.
\<close>

theorem validate_rejections:
  "(service fl \<notin> set services \<longrightarrow>
      validate_part0 fl = Some (Errorf ''service should be one of [dynamodb | dax]'')
    \<and> validate_trydax e fl = Some (Errorf ''service should be one of [dynamodb | dax]''))
 \<and> (service fl \<in> set services \<and> command fl \<notin> set commands \<longrightarrow>
      validate_part0 fl = Some (Errorf
        ''command should be one of [create-table | put-item | get-item | query | scan | delete-table]'')
    \<and> validate_trydax e fl = Some (Errorf (''command should be one of ['' @ commandsMsg e @ '']'')))
 \<and> (service fl = ''dax'' \<and> command fl \<in> set commands \<and> endpoint fl = [] \<longrightarrow>
      validate_part0 fl = Some (Errorf ''endpoint should be set for 'dax' service'')
    \<and> validate_trydax e fl = Some (Errorf ''endpoint should be set for 'dax' service''))
 \<and> (service fl = ''dax'' \<and> command fl \<in> {''create-table'', ''delete-table''} \<and> endpoint fl \<noteq> [] \<longrightarrow>
      validate_part0 fl = Some (Errorf
        (''service 'dax' does not support table operations, use service 'dynamodb'' @ [CHR 0x27]))
    \<and> validate_trydax e fl = None)
 \<and> distinct
      [''service should be one of [dynamodb | dax]'',
       ''command should be one of [create-table | put-item | get-item | query | scan | delete-table]'',
       ''endpoint should be set for 'dax' service'',
       ''service 'dax' does not support table operations, use service 'dynamodb'' @ [CHR 0x27]]
 \<and> distinct
      [''service should be one of [dynamodb | dax]'',
       ''command should be one of ['' @ commandsMsg e @ '']'',
       ''endpoint should be set for 'dax' service'']
 \<and> (length (range_commandMap e) = length commandMap \<longrightarrow>
      commandsMsg e = join (range_commandMap e) '' | '')"
proof -
  have a: "service fl \<notin> set services \<longrightarrow>
      validate_part0 fl = Some (Errorf ''service should be one of [dynamodb | dax]'')
    \<and> validate_trydax e fl = Some (Errorf ''service should be one of [dynamodb | dax]'')"
    by (simp add: validate_part0_def validate_trydax_def contains_set join_services)
  have b: "service fl \<in> set services \<and> command fl \<notin> set commands \<longrightarrow>
      validate_part0 fl = Some (Errorf
        ''command should be one of [create-table | put-item | get-item | query | scan | delete-table]'')
    \<and> validate_trydax e fl = Some (Errorf (''command should be one of ['' @ commandsMsg e @ '']''))"
    by (simp add: validate_part0_def validate_trydax_def contains_set join_commands
        map_of_commandMap_None)
  have c: "service fl = ''dax'' \<and> command fl \<in> set commands \<and> endpoint fl = [] \<longrightarrow>
      validate_part0 fl = Some (Errorf ''endpoint should be set for 'dax' service'')
    \<and> validate_trydax e fl = Some (Errorf ''endpoint should be set for 'dax' service'')"
    by (simp add: validate_part0_def validate_trydax_def contains_set map_of_commandMap_None
        services_def)
  have d: "service fl = ''dax'' \<and> command fl \<in> {''create-table'', ''delete-table''} \<and> endpoint fl \<noteq> [] \<longrightarrow>
      validate_part0 fl = Some (Errorf
        (''service 'dax' does not support table operations, use service 'dynamodb'' @ [CHR 0x27]))
    \<and> validate_trydax e fl = None"
    by (auto simp add: validate_part0_def validate_trydax_def contains_set map_of_commandMap_None
        services_def commands_def)
  have f: "length (range_commandMap e) = length commandMap \<longrightarrow>
      commandsMsg e = join (range_commandMap e) '' | ''"
    by (simp add: commandsMsg_def listOfKeys_perm)
  show ?thesis using a b c d f by simp
qed

theorem validate_rejections_witness:
  "service (sample_flags ''s3'' ''scan'' []) \<notin> set services
   \<and> validate_part0 (sample_flags ''s3'' ''scan'' [])
       = Some (Errorf ''service should be one of [dynamodb | dax]'')
   \<and> service (sample_flags ''dynamodb'' ''drop'' []) \<in> set services
   \<and> command (sample_flags ''dynamodb'' ''drop'' []) \<notin> set commands
   \<and> validate_trydax sample_env (sample_flags ''dynamodb'' ''drop'' [])
       = Some (Errorf (''command should be one of ['' @ commandsMsg sample_env @ '']''))
   \<and> command (sample_flags ''dax'' ''scan'' []) \<in> set commands
   \<and> validate_trydax sample_env (sample_flags ''dax'' ''scan'' [])
       = Some (Errorf ''endpoint should be set for 'dax' service'')
   \<and> validate_part0 (sample_flags ''dax'' ''delete-table'' ''cluster:8111'')
       = Some (Errorf
           (''service 'dax' does not support table operations, use service 'dynamodb'' @ [CHR 0x27]))
   \<and> length (range_commandMap sample_env) = length commandMap
   \<and> commandsMsg sample_env
       = ''scan | query | put-item | get-item | delete-table | create-table''"
  using validate_rejections [of "sample_flags ''s3'' ''scan'' []" sample_env]
    validate_rejections [of "sample_flags ''dynamodb'' ''drop'' []" sample_env]
    validate_rejections [of "sample_flags ''dax'' ''scan'' []" sample_env]
    validate_rejections [of "sample_flags ''dax'' ''delete-table'' ''cluster:8111''" sample_env]
  by (simp add: sample_flags_def services_def commands_def sample_env_def commandMap_def)

text \<open>
  Claim C10. In both variants: when the service and the command are both invalid,
  \<open>validate\<close> returns the invalid-service error; the endpoint error and the
  table-operation error come only with service \<open>dax\<close> and a valid command, and outside
  that case the endpoint has no influence on the result; service \<open>dynamodb\<close> with a valid
  command and an empty endpoint is accepted.
\<close>

theorem validate_order:
  "(service fl \<notin> set services \<and> command fl \<notin> set commands \<longrightarrow>
      validate_part0 fl = Some (Errorf ''service should be one of [dynamodb | dax]'')
    \<and> validate_trydax e fl = Some (Errorf ''service should be one of [dynamodb | dax]''))
 \<and> (validate_part0 fl = Some (Errorf ''endpoint should be set for 'dax' service'')
      \<or> validate_part0 fl = Some (Errorf
           (''service 'dax' does not support table operations, use service 'dynamodb'' @ [CHR 0x27]))
      \<or> validate_trydax e fl = Some (Errorf ''endpoint should be set for 'dax' service'')
    \<longrightarrow> service fl = ''dax'' \<and> service fl \<in> set services \<and> command fl \<in> set commands)
 \<and> (\<not> (service fl = ''dax'' \<and> command fl \<in> set commands) \<longrightarrow>
      validate_part0 (fl\<lparr>endpoint := ep\<rparr>) = validate_part0 fl
    \<and> validate_trydax e (fl\<lparr>endpoint := ep\<rparr>) = validate_trydax e fl)
 \<and> (service fl = ''dynamodb'' \<and> command fl \<in> set commands \<and> endpoint fl = [] \<longrightarrow>
      validate_part0 fl = None \<and> validate_trydax e fl = None)"
proof -
  have a: "service fl \<notin> set services \<and> command fl \<notin> set commands \<longrightarrow>
      validate_part0 fl = Some (Errorf ''service should be one of [dynamodb | dax]'')
    \<and> validate_trydax e fl = Some (Errorf ''service should be one of [dynamodb | dax]'')"
    by (simp add: validate_part0_def validate_trydax_def contains_set join_services)
  have b1: "validate_part0 fl = Some (Errorf ''endpoint should be set for 'dax' service'')
      \<longrightarrow> service fl = ''dax'' \<and> service fl \<in> set services \<and> command fl \<in> set commands"
    by (simp add: validate_part0_def contains_set join_services join_commands split: if_splits)
  have b2: "validate_part0 fl = Some (Errorf
           (''service 'dax' does not support table operations, use service 'dynamodb'' @ [CHR 0x27]))
      \<longrightarrow> service fl = ''dax'' \<and> service fl \<in> set services \<and> command fl \<in> set commands"
    by (simp add: validate_part0_def contains_set join_services join_commands split: if_splits)
  have b3: "validate_trydax e fl = Some (Errorf ''endpoint should be set for 'dax' service'')
      \<longrightarrow> service fl = ''dax'' \<and> service fl \<in> set services \<and> command fl \<in> set commands"
    by (simp add: validate_trydax_def contains_set join_services map_of_commandMap_None
        split: if_splits)
  have c: "\<not> (service fl = ''dax'' \<and> command fl \<in> set commands) \<longrightarrow>
      validate_part0 (fl\<lparr>endpoint := ep\<rparr>) = validate_part0 fl
    \<and> validate_trydax e (fl\<lparr>endpoint := ep\<rparr>) = validate_trydax e fl"
    by (simp add: validate_part0_def validate_trydax_def contains_set map_of_commandMap_None)
  have d: "service fl = ''dynamodb'' \<and> command fl \<in> set commands \<and> endpoint fl = [] \<longrightarrow>
      validate_part0 fl = None \<and> validate_trydax e fl = None"
    by (simp add: validate_part0_def validate_trydax_def contains_set map_of_commandMap_None
        services_def)
  show ?thesis using a b1 b2 b3 c d by blast
qed

theorem validate_order_witness:
  "service (sample_flags ''s3'' ''drop'' []) \<notin> set services
   \<and> command (sample_flags ''s3'' ''drop'' []) \<notin> set commands
   \<and> validate_part0 (sample_flags ''s3'' ''drop'' [])
       = Some (Errorf ''service should be one of [dynamodb | dax]'')
   \<and> validate_trydax sample_env (sample_flags ''s3'' ''drop'' [])
       = Some (Errorf ''service should be one of [dynamodb | dax]'')
   \<and> validate_part0 (sample_flags ''dax'' ''scan'' [])
       = Some (Errorf ''endpoint should be set for 'dax' service'')
   \<and> command (sample_flags ''dax'' ''scan'' []) \<in> set commands
   \<and> validate_part0 ((sample_flags ''dynamodb'' ''drop'' [])\<lparr>endpoint := ''cluster:8111''\<rparr>)
       = validate_part0 (sample_flags ''dynamodb'' ''drop'' [])
   \<and> validate_part0 (sample_flags ''dynamodb'' ''scan'' []) = None
   \<and> validate_trydax sample_env (sample_flags ''dynamodb'' ''scan'' []) = None"
proof -
  have h: "validate_part0 (sample_flags ''dax'' ''scan'' [])
       = Some (Errorf ''endpoint should be set for 'dax' service'')"
    by (simp add: validate_part0_def sample_flags_def services_def commands_def)
  show ?thesis
    using h validate_order [of "sample_flags ''s3'' ''drop'' []" sample_env "[]"]
      validate_order [of "sample_flags ''dax'' ''scan'' []" sample_env "[]"]
      validate_order [of "sample_flags ''dynamodb'' ''drop'' []" sample_env "''cluster:8111''"]
      validate_order [of "sample_flags ''dynamodb'' ''scan'' []" sample_env "[]"]
    by (simp add: sample_flags_def services_def commands_def)
qed

text \<open>
  Claim C9. In \<^verbatim>\<open>try_dax.go\<close>, when \<open>validate\<close> returns nil the command is a key of
  \<open>commandMap\<close>, and \<open>main\<close> never calls a nil function: no run ends in \<open>Panic\<close>.
\<close>

theorem dispatch_never_nil:
  "(validate_trydax e fl = None \<longrightarrow> command fl \<in> fst ` set commandMap
       \<and> map_of commandMap (command fl) \<noteq> None)
   \<and> fst (main_trydax cl e w) \<noteq> Panic"
proof -
  have a: "validate_trydax e fl = None \<longrightarrow> map_of commandMap (command fl) \<noteq> None" for fl
    by (simp add: validate_trydax_def split: if_splits)
  have b: "map_of commandMap c \<noteq> None \<longrightarrow> c \<in> fst ` set commandMap" for c
    by (simp add: map_of_eq_None_iff)
  have c: "initializeOptions cl e w = (Inr fl', w') \<Longrightarrow> validate_trydax e fl' = None" for fl' w'
    by (auto simp add: initializeOptions_def Let_def split: option.splits sum.splits)
  have "fst (main_trydax cl e w) \<noteq> Panic"
  proof (cases "initializeOptions cl e w")
    case (Pair r w')
    show ?thesis
    proof (cases r)
      case (Inl err)
      with Pair show ?thesis by (simp add: main_trydax_def)
    next
      case (Inr fl')
      with Pair c have "validate_trydax e fl' = None" by simp
      with a have "map_of commandMap (command fl') \<noteq> None" by simp
      then obtain ex where "map_of commandMap (command fl') = Some ex" by auto
      with Pair Inr show ?thesis
        by (simp add: main_trydax_def split: prod.splits option.splits)
    qed
  qed
  with a b show ?thesis by blast
qed

theorem dispatch_never_nil_witness:
  "validate_trydax sample_env (sample_flags ''dynamodb'' ''scan'' []) = None
   \<and> command (sample_flags ''dynamodb'' ''scan'' []) \<in> fst ` set commandMap"
proof -
  have h: "validate_trydax sample_env (sample_flags ''dynamodb'' ''scan'' []) = None"
    by (simp add: validate_trydax_def sample_flags_def services_def commandMap_def)
  show ?thesis
    using h dispatch_never_nil [of sample_env "sample_flags ''dynamodb'' ''scan'' []"]
    by simp
qed

section \<open>Executors\<close>

text \<open>
  Claim C3. For each of \<open>put-item\<close>, \<open>get-item\<close>, \<open>query\<close> and \<open>scan\<close>, in both
  variants: when the first \<open>n - 1\<close> calls of the run succeed and call number \<open>n\<close> returns
  an error (\<open>n\<close> between 1 and the number of calls of the full run), the executor returns
  that error and has issued exactly the first \<open>n\<close> requests of the run, each once.
\<close>

theorem first_error_aborts:
  assumes "cmd \<in> {''put-item'', ''get-item'', ''query'', ''scan''}"
    and "command fl = cmd"
    and "1 \<le> n" and "n \<le> length (loop_requests cmd)"
    and "\<forall>k<n - 1. \<exists>out.
           client (calls w @ take k (loop_requests cmd)) (loop_requests cmd ! k) = Inr out"
    and "client (calls w @ take (n - 1) (loop_requests cmd)) (loop_requests cmd ! (n - 1))
           = Inl err"
  shows "(\<exists>w'. executeCommand_part0 fl e client w = (Some err, w')
            \<and> calls w' = calls w @ take n (loop_requests cmd)
            \<and> length (calls w') = length (calls w) + n)
       \<and> (initItemClient_trydax fl e = Inr client \<longrightarrow>
            (\<exists>execute w'. map_of commandMap cmd = Some execute
               \<and> execute fl e w = (Some err, w')
               \<and> calls w' = calls w @ take n (loop_requests cmd)
               \<and> length (calls w') = length (calls w) + n))
       \<and> length (loop_requests ''put-item'') = 100
       \<and> length (loop_requests ''get-item'') = 2500
       \<and> length (loop_requests ''query'') = 25
       \<and> length (loop_requests ''scan'') = 25"
proof -
  let ?rs = "loop_requests cmd"
  have m: "n - 1 < length ?rs" "Suc (n - 1) = n" using assms(3,4) by simp_all
  have len: "length (take n ?rs) = n" using assms(4) by simp
  have r: "\<exists>w'. run_seq fl client ?rs w = (Some err, w') \<and> calls w' = calls w @ take n ?rs"
    using run_seq_fail [OF m(1) assms(5) assms(6), of fl] m(2) by auto
  have t: "\<exists>w'. timed fl e client ?rs w = (Some err, w') \<and> calls w' = calls w @ take n ?rs"
    using timed_fail [OF m(1) assms(5) assms(6), of fl e] m(2) by auto
  have both: "\<exists>w'. (if cmd = ''put-item'' then run_seq fl client ?rs w
                     else timed fl e client ?rs w) = (Some err, w')
                \<and> calls w' = calls w @ take n ?rs
                \<and> length (calls w') = length (calls w) + n"
    using r t len by (cases "cmd = ''put-item''") auto
  have p0: "\<exists>w'. executeCommand_part0 fl e client w = (Some err, w')
            \<and> calls w' = calls w @ take n ?rs
            \<and> length (calls w') = length (calls w) + n"
    using both loop_command_part0 [OF assms(1,2), of e client w] by simp
  have td: "\<exists>execute w'. map_of commandMap cmd = Some execute
               \<and> execute fl e w = (Some err, w')
               \<and> calls w' = calls w @ take n ?rs
               \<and> length (calls w') = length (calls w) + n"
    if "initItemClient_trydax fl e = Inr client"
  proof -
    from loop_command_trydax [OF assms(1) that, of w] obtain execute where
      ex: "map_of commandMap cmd = Some execute"
      "execute fl e w = (if cmd = ''put-item'' then run_seq fl client ?rs w
           else timed fl e client ?rs w)" by blast
    from both obtain w' where "(if cmd = ''put-item'' then run_seq fl client ?rs w
                     else timed fl e client ?rs w) = (Some err, w')"
      "calls w' = calls w @ take n ?rs" "length (calls w') = length (calls w) + n" by blast
    with ex show ?thesis by auto
  qed
  show ?thesis using p0 td length_loop_requests by blast
qed

text \<open>
  The 37th of the 100 writes of \<open>put-item\<close> fails: 37 requests are issued.
\<close>

theorem first_error_aborts_witness:
  "''put-item'' \<in> {''put-item'', ''get-item'', ''query'', ''scan''}
   \<and> command (sample_flags ''dynamodb'' ''put-item'' []) = ''put-item''
   \<and> (1::nat) \<le> 37 \<and> 37 \<le> length (loop_requests ''put-item'')
   \<and> failing_client 37 (calls world0 @ take (37 - 1) (loop_requests ''put-item''))
        (loop_requests ''put-item'' ! (37 - 1)) = Inl (Errorf ''throttled'')
   \<and> (\<exists>w'. executeCommand_part0 (sample_flags ''dynamodb'' ''put-item'' []) sample_env
               (failing_client 37) world0 = (Some (Errorf ''throttled''), w')
          \<and> calls w' = calls world0 @ take 37 (loop_requests ''put-item'')
          \<and> length (calls w') = length (calls world0) + 37)"
proof -
  have a: "''put-item'' \<in> {''put-item'', ''get-item'', ''query'', ''scan''}" by simp
  have b: "command (sample_flags ''dynamodb'' ''put-item'' []) = ''put-item''"
    by (simp add: sample_flags_def)
  have c: "(1::nat) \<le> 37" by simp
  have d: "37 \<le> length (loop_requests ''put-item'')"
    by (simp add: length_loop_requests)
  have f: "\<forall>k<37 - 1. \<exists>out.
      failing_client 37 (calls world0 @ take k (loop_requests ''put-item''))
        (loop_requests ''put-item'' ! k) = Inr out"
    by (simp add: failing_client_def world0_def length_loop_requests)
  have g: "failing_client 37 (calls world0 @ take (37 - 1) (loop_requests ''put-item''))
        (loop_requests ''put-item'' ! (37 - 1)) = Inl (Errorf ''throttled'')"
    by (simp add: failing_client_def world0_def length_loop_requests)
  show ?thesis
    using a b c d g first_error_aborts [OF a b c d f g, of sample_env] by blast
qed

text \<open>
  Claim C4. When every call succeeds, \<open>put-item\<close> issues exactly 100 \<open>PutItem\<close> requests
  on table \<open>TryDaxGoTable\<close>, one for each \<open>i\<close> and \<open>j\<close> from 0 to 9 in row order, with
  partition key \<open>key_i\<close>, sort key \<open>j\<close> and value \<open>val_i_j\<close> in decimal; the executor of
  \<^verbatim>\<open>try_dax.go\<close> runs the same loop on the client it builds.
\<close>

theorem put_item_grid:
  assumes "\<forall>k<100. \<exists>out.
      client (calls w @ take k (loop_requests ''put-item'')) (loop_requests ''put-item'' ! k)
        = Inr out"
  shows "(\<exists>w'. executePutItem_part0 fl client w = (None, w')
          \<and> calls w' = calls w @
               [PutItem ''TryDaxGoTable''
                  [''pk'' \<mapsto> S (''key_'' @ fmt_d i),
                   ''sk'' \<mapsto> N (fmt_d j),
                   ''value'' \<mapsto> S (''val_'' @ fmt_d i @ ''_'' @ fmt_d j)].
                i \<leftarrow> [0..<10], j \<leftarrow> [0..<10]]
          \<and> length (calls w') = length (calls w) + 100)
       \<and> (initItemClient_trydax fl e = Inr client \<longrightarrow>
            executePutItem_trydax fl e w = executePutItem_part0 fl client w)
       \<and> map fmt_d [0..<10] = map (\<lambda>c. [c]) ''0123456789''"
proof -
  have rs: "loop_requests ''put-item'' =
       [PutItem ''TryDaxGoTable''
                  [''pk'' \<mapsto> S (''key_'' @ fmt_d i),
                   ''sk'' \<mapsto> N (fmt_d j),
                   ''value'' \<mapsto> S (''val_'' @ fmt_d i @ ''_'' @ fmt_d j)].
                i \<leftarrow> [0..<10], j \<leftarrow> [0..<10]]"
    by (simp add: loop_requests_def put_request_def [abs_def])
  have h: "\<forall>k<length (loop_requests ''put-item''). \<exists>out.
      client (calls w @ take k (loop_requests ''put-item'')) (loop_requests ''put-item'' ! k)
        = Inr out"
    using assms by (simp add: length_loop_requests)
  from run_seq_ok [OF h, of fl] obtain w' where
    w': "run_seq fl client (loop_requests ''put-item'') w = (None, w')"
    "calls w' = calls w @ loop_requests ''put-item''" by blast
  have len: "length (calls w') = length (calls w) + 100"
    using w'(2) by (simp add: length_loop_requests)
  have p0: "\<exists>w'. executePutItem_part0 fl client w = (None, w')
          \<and> calls w' = calls w @ loop_requests ''put-item''
          \<and> length (calls w') = length (calls w) + 100"
    using w' len by (simp add: executePutItem_run_seq)
  have td: "initItemClient_trydax fl e = Inr client \<longrightarrow>
            executePutItem_trydax fl e w = executePutItem_part0 fl client w"
    by (simp add: trydax_item_executors)
  have dg: "map fmt_d [0..<10] = map (\<lambda>c. [c]) ''0123456789''"
    by (simp add: upt_rec fmt_d.simps)
  show ?thesis using p0 td dg unfolding rs by blast
qed

text \<open>
  A client that answers every request.
\<close>

theorem put_item_grid_witness:
  "(\<exists>w'. executePutItem_part0 (sample_flags ''dynamodb'' ''put-item'' []) sample_client world0
               = (None, w')
          \<and> length (calls w') = length (calls world0) + 100)
   \<and> initItemClient_trydax (sample_flags ''dynamodb'' ''put-item'' []) sample_env
        = Inr sample_client
   \<and> executePutItem_trydax (sample_flags ''dynamodb'' ''put-item'' []) sample_env world0
        = executePutItem_part0 (sample_flags ''dynamodb'' ''put-item'' []) sample_client world0"
proof -
  have h: "\<forall>k<100. \<exists>out.
      sample_client (calls world0 @ take k (loop_requests ''put-item''))
        (loop_requests ''put-item'' ! k) = Inr out"
    by (simp add: sample_client_def)
  have i: "initItemClient_trydax (sample_flags ''dynamodb'' ''put-item'' []) sample_env
        = Inr sample_client"
    by (simp add: initItemClient_trydax_def sample_flags_def sample_env_def ddbClient_def)
  show ?thesis
    using h i put_item_grid [OF h, of "sample_flags ''dynamodb'' ''put-item'' []" sample_env]
    by blast
qed



text \<open>
  Claim C6. When every call succeeds, \<open>query\<close> issues exactly 25 \<open>Query\<close> requests, each
  with partition-key value \<open>key_5\<close> and the sort-key bounds 2 and 9.
\<close>

theorem query_requests_fixed:
  assumes "\<forall>k<25. \<exists>out.
      client (calls w @ take k (loop_requests ''query'')) (loop_requests ''query'' ! k)
        = Inr out"
  shows "(\<exists>w'. executeQuery_part0 fl e client w = (None, w')
          \<and> calls w' = calls w @ replicate 25
               (Query ''TryDaxGoTable'' ''pk = :pkval and sk between :skval1 and :skval2''
                  ['':pkval'' \<mapsto> S ''key_5'', '':skval1'' \<mapsto> N ''2'', '':skval2'' \<mapsto> N ''9''])
          \<and> length (calls w') = length (calls w) + 25)
       \<and> (initItemClient_trydax fl e = Inr client \<longrightarrow>
            executeQuery_trydax fl e w = executeQuery_part0 fl e client w)"
proof -
  have rs: "loop_requests ''query'' = replicate 25
               (Query ''TryDaxGoTable'' ''pk = :pkval and sk between :skval1 and :skval2''
                  ['':pkval'' \<mapsto> S ''key_5'', '':skval1'' \<mapsto> N ''2'', '':skval2'' \<mapsto> N ''9''])"
    by (simp add: loop_requests_def query_request_def)
  have h: "\<forall>k<length (loop_requests ''query''). \<exists>out.
      client (calls w @ take k (loop_requests ''query'')) (loop_requests ''query'' ! k)
        = Inr out"
    using assms by (simp add: length_loop_requests)
  from timed_ok [OF h, of fl e] obtain w' where
    w': "timed fl e client (loop_requests ''query'') w = (None, w')"
    "calls w' = calls w @ loop_requests ''query''" by blast
  have len: "length (calls w') = length (calls w) + 25"
    using w'(2) by (simp add: length_loop_requests)
  have p0: "\<exists>w'. executeQuery_part0 fl e client w = (None, w')
          \<and> calls w' = calls w @ loop_requests ''query''
          \<and> length (calls w') = length (calls w) + 25"
    using w' len unfolding executeQuery_timed by blast
  have td: "initItemClient_trydax fl e = Inr client \<longrightarrow>
            executeQuery_trydax fl e w = executeQuery_part0 fl e client w"
    by (simp add: trydax_item_executors)
  show ?thesis using p0 td unfolding rs by blast
qed

text \<open>
  A run against the cache service.
\<close>

theorem query_requests_fixed_witness:
  "(\<exists>w'. executeQuery_part0 (sample_flags ''dax'' ''query'' ''cluster:8111'') sample_env
               sample_client world0 = (None, w')
          \<and> length (calls w') = length (calls world0) + 25)
   \<and> initItemClient_trydax (sample_flags ''dax'' ''query'' ''cluster:8111'') sample_env
        = Inr sample_client
   \<and> executeQuery_trydax (sample_flags ''dax'' ''query'' ''cluster:8111'') sample_env world0
        = executeQuery_part0 (sample_flags ''dax'' ''query'' ''cluster:8111'') sample_env
            sample_client world0"
proof -
  have h: "\<forall>k<25. \<exists>out.
      sample_client (calls world0 @ take k (loop_requests ''query''))
        (loop_requests ''query'' ! k) = Inr out"
    by (simp add: sample_client_def)
  have i: "initItemClient_trydax (sample_flags ''dax'' ''query'' ''cluster:8111'') sample_env
        = Inr sample_client"
    by (simp add: initItemClient_trydax_def sample_flags_def sample_env_def daxClient_def)
  show ?thesis
    using h i query_requests_fixed [OF h, of "sample_flags ''dax'' ''query'' ''cluster:8111''"
        sample_env]
    by blast
qed

text \<open>
  Claim C7. In both variants the one request \<open>create-table\<close> issues has the key schema
  hash key \<open>pk\<close>, range key \<open>sk\<close>, the attribute types string for \<open>pk\<close> and number for
  \<open>sk\<close>, and a provisioned throughput of 100 read and 100 write capacity units; in
  \<^verbatim>\<open>try_dax.go\<close> no request is issued when the table client cannot be built.
\<close>

theorem create_table_request:
  "calls (snd (executeCreateTable_part0 fl client w)) = calls w @
     [CreateTable ''TryDaxGoTable''
        [KeySchemaElement ''pk'' KeyTypeHash, KeySchemaElement ''sk'' KeyTypeRange]
        [AttributeDefinition ''pk'' ScalarAttributeTypeS,
         AttributeDefinition ''sk'' ScalarAttributeTypeN]
        (ProvisionedThroughput 100 100)]
   \<and> calls (snd (executeCreateTable_trydax fl e w)) = calls w @
     (case initTableClient_trydax fl e of
        Inl err \<Rightarrow> []
      | Inr client' \<Rightarrow>
          [CreateTable ''TryDaxGoTable''
             [KeySchemaElement ''pk'' KeyTypeHash, KeySchemaElement ''sk'' KeyTypeRange]
             [AttributeDefinition ''pk'' ScalarAttributeTypeS,
              AttributeDefinition ''sk'' ScalarAttributeTypeN]
             (ProvisionedThroughput 100 100)])
   \<and> KeyTypeHash = ''HASH'' \<and> KeyTypeRange = ''RANGE''
   \<and> ScalarAttributeTypeS = ''S'' \<and> ScalarAttributeTypeN = ''N''"
proof -
  have a: "calls (snd (executeCreateTable_part0 fl c w)) = calls w @
     [CreateTable ''TryDaxGoTable''
        [KeySchemaElement ''pk'' KeyTypeHash, KeySchemaElement ''sk'' KeyTypeRange]
        [AttributeDefinition ''pk'' ScalarAttributeTypeS,
         AttributeDefinition ''sk'' ScalarAttributeTypeN]
        (ProvisionedThroughput 100 100)]" for c
    by (simp add: executeCreateTable_part0_def invoke_def table_def Let_def
        split: sum.splits)
  have b: "calls (snd (executeCreateTable_trydax fl e w)) = calls w @
     (case initTableClient_trydax fl e of
        Inl err \<Rightarrow> []
      | Inr client' \<Rightarrow>
          [CreateTable ''TryDaxGoTable''
             [KeySchemaElement ''pk'' KeyTypeHash, KeySchemaElement ''sk'' KeyTypeRange]
             [AttributeDefinition ''pk'' ScalarAttributeTypeS,
              AttributeDefinition ''sk'' ScalarAttributeTypeN]
             (ProvisionedThroughput 100 100)])"
    by (cases "initTableClient_trydax fl e") (simp_all add: executeCreateTable_trydax_def a)
  show ?thesis
    using a b
    by (simp add: KeyTypeHash_def KeyTypeRange_def ScalarAttributeTypeS_def
        ScalarAttributeTypeN_def)
qed

section \<open>Table capability and exit status\<close>

text \<open>
  Claim C8, as stated, fails: the error \<open>initTableClient\<close> returns for service \<open>dax\<close>
  does not have the text the claim quotes.
\<close>

theorem table_client_message_differs:
  "initTableClient_trydax (sample_flags ''dax'' ''create-table'' ''cluster:8111'') sample_env
     \<noteq> Inl (Errorf ''table operations unsupported on this backend'')"
  by (simp add: initTableClient_trydax_def sample_flags_def)

text \<open>
  Claim C8, amended. In \<^verbatim>\<open>try_dax.go\<close>, with service \<open>dax\<close> the table client is refused
  with the error \<open>for table operations use service 'dynamodb'\<close>, and \<open>create-table\<close> and
  \<open>delete-table\<close> return that error without issuing a request; with any other service
  the table client is the one of \<open>ddbClient\<close>. In \<^verbatim>\<open>part_000\<close>, service \<open>dax\<close> with a
  table command is rejected by \<open>validate\<close> and \<open>main\<close> issues no request.
\<close>

theorem table_capability:
  "(service fl = ''dax'' \<longrightarrow>
      initTableClient_trydax fl e
        = Inl (Errorf (''for table operations use service 'dynamodb'' @ [CHR 0x27]))
    \<and> executeCreateTable_trydax fl e w
        = (Some (Errorf (''for table operations use service 'dynamodb'' @ [CHR 0x27])), w)
    \<and> executeDeleteTable_trydax fl e w
        = (Some (Errorf (''for table operations use service 'dynamodb'' @ [CHR 0x27])), w))
 \<and> (service fl \<noteq> ''dax'' \<longrightarrow> initTableClient_trydax fl e = ddbClient e (region fl))
 \<and> (service (flag_Parse_part0 cl) = ''dax''
      \<and> command (flag_Parse_part0 cl) \<in> {''create-table'', ''delete-table''} \<longrightarrow>
      (validate_part0 (flag_Parse_part0 cl)
         = Some (Errorf ''endpoint should be set for 'dax' service'')
       \<or> validate_part0 (flag_Parse_part0 cl)
         = Some (Errorf (''service 'dax' does not support table operations, use service 'dynamodb''
                          @ [CHR 0x27])))
    \<and> calls (snd (main_part0 cl e w)) = calls w)"
proof -
  have a: "service fl = ''dax'' \<longrightarrow>
      initTableClient_trydax fl e
        = Inl (Errorf (''for table operations use service 'dynamodb'' @ [CHR 0x27]))
    \<and> executeCreateTable_trydax fl e w
        = (Some (Errorf (''for table operations use service 'dynamodb'' @ [CHR 0x27])), w)
    \<and> executeDeleteTable_trydax fl e w
        = (Some (Errorf (''for table operations use service 'dynamodb'' @ [CHR 0x27])), w)"
    by (simp add: initTableClient_trydax_def executeCreateTable_trydax_def
        executeDeleteTable_trydax_def)
  have b: "service fl \<noteq> ''dax'' \<longrightarrow> initTableClient_trydax fl e = ddbClient e (region fl)"
    by (simp add: initTableClient_trydax_def)
  have c: "validate_part0 f
         = Some (Errorf ''endpoint should be set for 'dax' service'')
       \<or> validate_part0 f
         = Some (Errorf (''service 'dax' does not support table operations, use service 'dynamodb''
                          @ [CHR 0x27]))"
    if "service f = ''dax''" "command f \<in> {''create-table'', ''delete-table''}" for f
    using that by (auto simp add: validate_part0_def services_def commands_def)
  have d: "calls (snd (main_part0 cl e w)) = calls w"
    if "validate_part0 (flag_Parse_part0 cl) = Some err" for err
    using that by (simp add: main_part0_def Let_def os_Stderr_WriteString_def)
  show ?thesis using a b c d by blast
qed

text \<open>
  Both services, and a \<open>delete-table\<close> on the cache service in \<^verbatim>\<open>part_000\<close>.
\<close>

theorem table_capability_witness:
  "service (sample_flags ''dax'' ''create-table'' ''cluster:8111'') = ''dax''
   \<and> executeCreateTable_trydax (sample_flags ''dax'' ''create-table'' ''cluster:8111'')
        sample_env world0
       = (Some (Errorf (''for table operations use service 'dynamodb'' @ [CHR 0x27])), world0)
   \<and> service (sample_flags ''dynamodb'' ''create-table'' []) \<noteq> ''dax''
   \<and> initTableClient_trydax (sample_flags ''dynamodb'' ''create-table'' []) sample_env
       = Inr sample_client
   \<and> service (flag_Parse_part0 (sample_cmdline ''dax'' ''delete-table'' ''cluster:8111'')) = ''dax''
   \<and> command (flag_Parse_part0 (sample_cmdline ''dax'' ''delete-table'' ''cluster:8111''))
        \<in> {''create-table'', ''delete-table''}
   \<and> calls (snd (main_part0 (sample_cmdline ''dax'' ''delete-table'' ''cluster:8111'')
               sample_env world0)) = calls world0"
  using table_capability [of "sample_flags ''dax'' ''create-table'' ''cluster:8111''"
      sample_env world0 "sample_cmdline ''dax'' ''delete-table'' ''cluster:8111''"]
    table_capability [of "sample_flags ''dynamodb'' ''create-table'' []"
      sample_env world0 "sample_cmdline ''dax'' ''delete-table'' ''cluster:8111''"]
  by (simp add: sample_flags_def sample_cmdline_def flag_Parse_part0_def flag_String_def
      ddbClient_def sample_env_def)




end
